theory Spec2Isabelle
  imports Complex_Main
begin

section \<open>Session data shared by the views\<close>

text \<open>
  The storefront client is a set of React components.  Each component is embedded as a
  function from the values it reads (its props, the session context, its own state) to
  what it renders or to its next state.  A JavaScript string is a \<^typ>\<open>string\<close>;
  \<open>null\<close> and \<open>undefined\<close> are \<^const>\<open>None\<close>.  A string is truthy
  exactly when it is not empty.

  \<open>useAuth()\<close> hands every component the pair \<open>(user, loading)\<close>.  Of the user
  object the code below reads \<open>user.id\<close> and \<open>user.user_type\<close>; of a service
  object the decisions below read \<open>service.creator_id\<close>.
\<close>

record user =
  id' :: string
  user_type :: string

record service =
  creator_id :: string

section \<open>ProtectedRoute.js\<close>

text \<open>
  What the component returns: the spinner, a \<open>Navigate\<close> element with its target, or
  its children.
\<close>

datatype element = Spinner | Navigate string | Children

text \<open>
  \<^verbatim>\<open>
  const ProtectedRoute = ({ children, requiredUserType = null }) => {
    const { user, loading } = useAuth();
    if (loading) { return <spinner/>; }
    if (!user) { return <Navigate to="/login" replace />; }
    if (requiredUserType && user.user_type !== requiredUserType) {
      return <Navigate to="/dashboard" replace />;
    }
    return children;
  };
  \<close>
\<close>

definition truthy :: "string \<Rightarrow> bool" where
  "truthy s = (s \<noteq> [])"

definition ProtectedRoute :: "string option \<Rightarrow> user option \<Rightarrow> bool \<Rightarrow> element" where
  "ProtectedRoute requiredUserType usr loading =
     (if loading then Spinner
      else case usr of
        None \<Rightarrow> Navigate ''/login''
      | Some u \<Rightarrow>
          (case requiredUserType of
             None \<Rightarrow> Children
           | Some r \<Rightarrow>
               if truthy r \<and> user_type u \<noteq> r then Navigate ''/dashboard''
               else Children))"

subsection \<open>The decision table of the specification\<close>

text \<open>
  The specification describes the guard as a decision over the session state and a
  route's requirement (none, any authenticated user, or one specific role).  The
  following definition is written from that table, not from the code; it is compared with
  \<^const>\<open>ProtectedRoute\<close> below.
\<close>

datatype requirement = NoRequirement | AnyAuthenticated | SpecificRole string

datatype decision = Suspend | Allow | RedirectToLogin | RedirectToLanding

definition RouteGuard_spec :: "bool \<Rightarrow> user option \<Rightarrow> requirement \<Rightarrow> decision" where
  "RouteGuard_spec loading identity required =
     (if loading then Suspend
      else case required of
        NoRequirement \<Rightarrow> Allow
      | AnyAuthenticated \<Rightarrow>
          (case identity of None \<Rightarrow> RedirectToLogin | Some i \<Rightarrow> Allow)
      | SpecificRole r \<Rightarrow>
          (case identity of
             None \<Rightarrow> RedirectToLogin
           | Some i \<Rightarrow> if user_type i \<noteq> r then RedirectToLanding else Allow))"

text \<open>
  How a decision shows on screen, and which requirement a value of the
  \<open>requiredUserType\<close> prop declares: the default \<open>null\<close> names no role, and so
  does the empty string, which is falsy.
\<close>

fun render_decision :: "decision \<Rightarrow> element" where
  "render_decision Suspend = Spinner"
| "render_decision Allow = Children"
| "render_decision RedirectToLogin = Navigate ''/login''"
| "render_decision RedirectToLanding = Navigate ''/dashboard''"

fun requirement_of :: "string option \<Rightarrow> requirement" where
  "requirement_of None = AnyAuthenticated"
| "requirement_of (Some r) = (if truthy r then SpecificRole r else AnyAuthenticated)"

section \<open>ServiceDetail.js: the order panel\<close>

text \<open>
  The sidebar of the detail page is a chain of conditional expressions:
  \<^verbatim>\<open>
  {user && user.user_type === 'buyer' && user.id !== service.creator_id ? (
     <order form: requirements text area, "Order Now">
   ) : user && user.id === service.creator_id ? (
     <"This is your service", "Edit Service">
   ) : user && user.user_type === 'creator' ? (
     <"Only buyers can order services. Switch to a buyer account to place orders.">
   ) : (
     <"Sign in to order this service", "Sign In">
   )}
  \<close>
\<close>

datatype affordance = OrderForm | ThisIsYourService | OnlyBuyersCanOrder | SignInToOrder

definition ServiceDetail_sidebar :: "user option \<Rightarrow> service \<Rightarrow> affordance" where
  "ServiceDetail_sidebar usr svc =
     (if (case usr of None \<Rightarrow> False
          | Some u \<Rightarrow> user_type u = ''buyer'' \<and> id' u \<noteq> creator_id svc)
      then OrderForm
      else if (case usr of None \<Rightarrow> False | Some u \<Rightarrow> id' u = creator_id svc)
      then ThisIsYourService
      else if (case usr of None \<Rightarrow> False | Some u \<Rightarrow> user_type u = ''creator'')
      then OnlyBuyersCanOrder
      else SignInToOrder)"

section \<open>Dashboard.js: the Marketplace component\<close>

text \<open>
  The component keeps the listings on display, a loading flag and the filter fields.  An
  effect calls \<open>fetchServices\<close> when the component mounts and after every change of
  \<open>filters\<close>:
  \<^verbatim>\<open>
  useEffect(() => { fetchServices(); }, [filters]);

  const fetchServices = async () => {
    try {
      setLoading(true);
      const params = new URLSearchParams();
      if (filters.search) params.append('search', filters.search);
      if (filters.category) params.append('category', filters.category);
      if (filters.minPrice) params.append('min_price', filters.minPrice);
      if (filters.maxPrice) params.append('max_price', filters.maxPrice);
      const response = await axios.get(`${API}/services?${params.toString()}`);
      setServices(response.data);
    } catch (error) {
      console.error('Error fetching services:', error);
    } finally {
      setLoading(false);
    }
  };
  \<close>
  The page runs on one event loop, so the component is a state machine over events: the
  mount, a filter change (\<open>handleFilterChange\<close> or \<open>clearFilters\<close>), and the
  settling of a request that is in flight.  \<open>fetchServices\<close> is cut at its
  \<open>await\<close>: the part before it runs with the event that triggers the effect, the part
  after it runs when the request settles.  The state also records what the network
  holds: the query of every request issued so far (a request is named by its position
  in this list) and the requests still in flight.  The listings are whatever the backend
  sends, so their type is a parameter.
\<close>

record filters =
  search :: string
  category :: string
  minPrice :: string
  maxPrice :: string

record 'a marketplace =
  services :: "'a list"
  loading :: bool
  filters :: filters
  requests :: "(string \<times> string) list list"
  in_flight :: "nat list"

definition search_params :: "filters \<Rightarrow> (string \<times> string) list" where
  "search_params f =
     (if truthy (search f) then [(''search'', search f)] else [])
     @ (if truthy (category f) then [(''category'', category f)] else [])
     @ (if truthy (minPrice f) then [(''min_price'', minPrice f)] else [])
     @ (if truthy (maxPrice f) then [(''max_price'', maxPrice f)] else [])"

text \<open>The state of \<open>useState\<close> before the first effect has run.\<close>

definition Marketplace_initial :: "'a marketplace" where
  "Marketplace_initial =
     \<lparr>services = [], loading = True,
      filters = \<lparr>search = [], category = [], minPrice = [], maxPrice = []\<rparr>,
      requests = [], in_flight = []\<rparr>"

text \<open>\<open>fetchServices\<close> up to its \<open>await\<close>: the request goes out.\<close>

definition fetchServices_issue :: "'a marketplace \<Rightarrow> 'a marketplace" where
  "fetchServices_issue m =
     m\<lparr>loading := True,
       requests := requests m @ [search_params (filters m)],
       in_flight := in_flight m @ [length (requests m)]\<rparr>"

text \<open>
  \<open>fetchServices\<close> after its \<open>await\<close>: on a response the listings are replaced by
  \<open>response.data\<close>; on a failure the error is logged; in both cases loading ends.
  Nothing here looks at which request has settled.
\<close>

definition fetchServices_resolved :: "'a list \<Rightarrow> 'a marketplace \<Rightarrow> 'a marketplace" where
  "fetchServices_resolved data m = m\<lparr>services := data, loading := False\<rparr>"

definition fetchServices_rejected :: "'a marketplace \<Rightarrow> 'a marketplace" where
  "fetchServices_rejected m = m\<lparr>loading := False\<rparr>"

text \<open>
  \<open>handleFilterChange\<close> sets the field named by the input that changed (an input of
  another name adds a key the code never reads); \<open>clearFilters\<close> empties all four.
\<close>

definition handleFilterChange :: "string \<Rightarrow> string \<Rightarrow> filters \<Rightarrow> filters" where
  "handleFilterChange name v f =
     (if name = ''search'' then f\<lparr>search := v\<rparr>
      else if name = ''category'' then f\<lparr>category := v\<rparr>
      else if name = ''minPrice'' then f\<lparr>minPrice := v\<rparr>
      else if name = ''maxPrice'' then f\<lparr>maxPrice := v\<rparr>
      else f)"

definition clearFilters :: filters where
  "clearFilters = \<lparr>search = [], category = [], minPrice = [], maxPrice = []\<rparr>"

datatype 'a marketplace_event =
  Mount
| FilterChange string string
| ClearFilters
| Resolved nat "'a list"
| Rejected nat

text \<open>
  One event.  The result is \<^const>\<open>None\<close> for an event that cannot happen: a request
  settles once, and only after it was issued.
\<close>

fun Marketplace_step :: "'a marketplace_event \<Rightarrow> 'a marketplace \<Rightarrow> 'a marketplace option" where
  "Marketplace_step Mount m = Some (fetchServices_issue m)"
| "Marketplace_step (FilterChange name v) m =
     Some (fetchServices_issue (m\<lparr>filters := handleFilterChange name v (filters m)\<rparr>))"
| "Marketplace_step ClearFilters m =
     Some (fetchServices_issue (m\<lparr>filters := clearFilters\<rparr>))"
| "Marketplace_step (Resolved k data) m =
     (if k \<in> set (in_flight m)
      then Some (fetchServices_resolved data (m\<lparr>in_flight := removeAll k (in_flight m)\<rparr>))
      else None)"
| "Marketplace_step (Rejected k) m =
     (if k \<in> set (in_flight m)
      then Some (fetchServices_rejected (m\<lparr>in_flight := removeAll k (in_flight m)\<rparr>))
      else None)"

fun Marketplace_run :: "'a marketplace_event list \<Rightarrow> 'a marketplace \<Rightarrow> 'a marketplace option" where
  "Marketplace_run [] m = Some m"
| "Marketplace_run (e # es) m =
     (case Marketplace_step e m of None \<Rightarrow> None | Some m' \<Rightarrow> Marketplace_run es m')"

text \<open>The data of the last request of a trace that resolved with a response, if any.\<close>

fun last_resolved :: "'a marketplace_event list \<Rightarrow> 'a list option" where
  "last_resolved [] = None"
| "last_resolved (e # es) =
     (case last_resolved es of
        Some d \<Rightarrow> Some d
      | None \<Rightarrow> (case e of Resolved k d \<Rightarrow> Some d | _ \<Rightarrow> None))"

section \<open>The JavaScript built-ins that CreateService.js calls\<close>

text \<open>
  A character of a \<^typ>\<open>string\<close> stands for a code unit below 256.  In that range
  the white space that \<open>trim\<close>, \<open>parseFloat\<close> and \<open>parseInt\<close> skip is tab,
  line feed, vertical tab, form feed, carriage return, space and the no-break space.
\<close>

definition is_whitespace :: "char \<Rightarrow> bool" where
  "is_whitespace c = (of_char c \<in> {9, 10, 11, 12, 13, 32, 160 :: nat})"

definition trim :: "string \<Rightarrow> string" where
  "trim s = rev (dropWhile is_whitespace (rev (dropWhile is_whitespace s)))"

text \<open>
  \<open>s.split(sep)\<close> for a one-character separator: the pieces between the separators,
  empty pieces included; the empty string gives one empty piece.
\<close>

fun split_on :: "char \<Rightarrow> string \<Rightarrow> string list" where
  "split_on sep [] = [[]]"
| "split_on sep (c # cs) =
     (if c = sep then [] # split_on sep cs
      else (case split_on sep cs of
              [] \<Rightarrow> [[c]]
            | w # ws \<Rightarrow> (c # w) # ws))"

text \<open>Reading an array at an index: \<open>undefined\<close> out of range.\<close>

definition nth_opt :: "'a list \<Rightarrow> nat \<Rightarrow> 'a option" where
  "nth_opt xs i = (if i < length xs then Some (xs ! i) else None)"

text \<open>
  A JavaScript number is \<open>NaN\<close>, an infinity or a finite value.  The finite values are
  kept exact, as rationals: rounding to a binary64 value is not modelled, neither to
  the nearest value nor, for a magnitude beyond the binary64 range, to zero or to an
  infinity (the numbers in the properties below, such as 25, 30, 3 and 1, are binary64
  values).  \<open>x <= 0\<close> is false for \<open>NaN\<close>.
\<close>

datatype jsnum = NaN | Num rat | PosInfinity | NegInfinity

fun le_zero :: "jsnum \<Rightarrow> bool" where
  "le_zero NaN = False"
| "le_zero (Num q) = (q \<le> 0)"
| "le_zero PosInfinity = False"
| "le_zero NegInfinity = True"

definition is_digit :: "char \<Rightarrow> bool" where
  "is_digit c = (48 \<le> (of_char c :: nat) \<and> (of_char c :: nat) \<le> 57)"

definition is_hex_digit :: "char \<Rightarrow> bool" where
  "is_hex_digit c =
     (is_digit c \<or> (65 \<le> (of_char c :: nat) \<and> (of_char c :: nat) \<le> 70)
      \<or> (97 \<le> (of_char c :: nat) \<and> (of_char c :: nat) \<le> 102))"

definition digit_value :: "char \<Rightarrow> nat" where
  "digit_value c =
     (if is_digit c then of_char c - 48
      else if 97 \<le> (of_char c :: nat) then of_char c - 87
      else of_char c - 55)"

definition digits_value :: "nat \<Rightarrow> string \<Rightarrow> nat" where
  "digits_value radix ds = foldl (\<lambda>n c. n * radix + digit_value c) 0 ds"

definition strip_sign :: "string \<Rightarrow> bool \<times> string" where
  "strip_sign s =
     (case s of
        [] \<Rightarrow> (False, [])
      | c # cs \<Rightarrow>
          if c = CHR ''-'' then (True, cs)
          else if c = CHR ''+'' then (False, cs)
          else (False, s))"

definition signed :: "bool \<Rightarrow> rat \<Rightarrow> jsnum" where
  "signed neg q = Num (if neg then - q else q)"

text \<open>
  \<open>parseInt(s)\<close> with no radix: leading white space and a sign are skipped, a prefix
  \<open>0x\<close> or \<open>0X\<close> selects radix 16, and the longest run of digits that follows is
  the value; with no digit there the result is \<open>NaN\<close>.
\<close>

definition parseInt :: "string \<Rightarrow> jsnum" where
  "parseInt s =
     (let (neg, s1) = strip_sign (dropWhile is_whitespace s);
          hex = (case s1 of
                   z # x # cs \<Rightarrow> z = CHR ''0'' \<and> (x = CHR ''x'' \<or> x = CHR ''X'')
                 | _ \<Rightarrow> False);
          ds = (if hex then takeWhile is_hex_digit (drop 2 s1) else takeWhile is_digit s1)
      in if ds = [] then NaN
         else signed neg (of_nat (digits_value (if hex then 16 else 10) ds)))"

text \<open>
  \<open>parseFloat(s)\<close>: leading white space is skipped and the longest prefix that is a
  decimal literal is the value: a sign, then \<open>Infinity\<close> or digits with an optional
  fraction (one of the two parts may be empty, not both) and an optional exponent, which
  counts only when it has a digit.  With no such prefix the result is \<open>NaN\<close>.
\<close>

definition exponent_part :: "string \<Rightarrow> int" where
  "exponent_part s =
     (case s of
        [] \<Rightarrow> 0
      | e # cs \<Rightarrow>
          if e = CHR ''e'' \<or> e = CHR ''E''
          then (let (neg, s1) = strip_sign cs; ds = takeWhile is_digit s1
                in if neg then - int (digits_value 10 ds) else int (digits_value 10 ds))
          else 0)"

definition scale10 :: "nat \<Rightarrow> int \<Rightarrow> rat" where
  "scale10 m k = (if 0 \<le> k then of_nat m * 10 ^ nat k else of_nat m / 10 ^ nat (- k))"

definition parseFloat :: "string \<Rightarrow> jsnum" where
  "parseFloat s =
     (let (neg, s1) = strip_sign (dropWhile is_whitespace s)
      in if take 8 s1 = ''Infinity'' then (if neg then NegInfinity else PosInfinity)
         else
           let ip = takeWhile is_digit s1;
               r1 = dropWhile is_digit s1;
               dot = (case r1 of [] \<Rightarrow> False | c # cs \<Rightarrow> c = CHR ''.'');
               fp = (if dot then takeWhile is_digit (drop 1 r1) else []);
               r2 = (if dot then dropWhile is_digit (drop 1 r1) else r1)
           in if ip = [] \<and> fp = [] then NaN
              else signed neg
                     (scale10 (digits_value 10 (ip @ fp)) (exponent_part r2 - int (length fp))))"

section \<open>CreateService.js\<close>

text \<open>
  The component state: the form fields (all strings, as the inputs hold them), the
  attached images, one error message and the loading flag.  An image is the text that
  \<open>handleImageUpload\<close> extracts from a data URL, or \<open>undefined\<close>.
\<close>

record formData =
  title :: string
  description :: string
  category :: string
  tags :: string
  base_price :: string
  delivery_time_days :: string
  revisions_included :: string

type_synonym image = "string option"

text \<open>The object sent to the backend: the form fields, three of them coerced to
  numbers, the tags as a list, and the images.\<close>

record serviceData =
  title :: string
  description :: string
  category :: string
  tags :: "string list"
  base_price :: jsnum
  delivery_time_days :: jsnum
  revisions_included :: jsnum
  images :: "image list"

record createService =
  formData :: formData
  images :: "image list"
  error :: string
  loading :: bool

definition CreateService_initial :: createService where
  "CreateService_initial =
     \<lparr>formData =
        \<lparr>formData.title = [], formData.description = [],
         formData.category = ''graphic-design'', formData.tags = [],
         formData.base_price = [], formData.delivery_time_days = [],
         formData.revisions_included = ''1''\<rparr>,
      images = [], error = [], loading = False\<rparr>"

subsection \<open>Attaching images\<close>

text \<open>
  \<^verbatim>\<open>
  const handleImageUpload = (e) => {
    const files = Array.from(e.target.files);
    files.forEach(file => {
      if (file.size > 5 * 1024 * 1024) { // 5MB limit
        setError('Image files must be less than 5MB');
        return;
      }
      const reader = new FileReader();
      reader.onload = (event) => {
        const base64 = event.target.result.split(',')[1];
        setImages(prev => [...prev, base64]);
      };
      reader.readAsDataURL(file);
    });
  };
  \<close>
  Of a file the handler reads its size; \<open>dataURL\<close> is the text that
  \<open>readAsDataURL\<close> delivers for it.  The handler itself only rejects files and
  starts readers: it returns the state and the files whose readers it started, in the
  order of the selection.  An image is appended later, when a reader's \<open>load\<close>
  event fires.
\<close>

record File =
  size' :: nat
  dataURL :: string

definition upload_file :: "File \<Rightarrow> createService \<times> File list \<Rightarrow> createService \<times> File list" where
  "upload_file f acc =
     (case acc of (st, readers) \<Rightarrow>
        if size' f > 5 * 1024 * 1024
        then (st\<lparr>error := ''Image files must be less than 5MB''\<rparr>, readers)
        else (st, readers @ [f]))"

definition handleImageUpload :: "File list \<Rightarrow> createService \<Rightarrow> createService \<times> File list" where
  "handleImageUpload files st = foldl (\<lambda>acc f. upload_file f acc) (st, []) files"

definition base64_of :: "string \<Rightarrow> image" where
  "base64_of result = nth_opt (split_on CHR '','' result) 1"

definition reader_onload :: "string \<Rightarrow> createService \<Rightarrow> createService" where
  "reader_onload result st = st\<lparr>images := images st @ [base64_of result]\<rparr>"

text \<open>The \<open>load\<close> events of the readers of some files, firing in the given order.\<close>

definition readers_loaded :: "File list \<Rightarrow> createService \<Rightarrow> createService" where
  "readers_loaded fired st = foldl (\<lambda>s f. reader_onload (dataURL f) s) st fired"

subsection \<open>Submitting the draft\<close>

text \<open>
  \<^verbatim>\<open>
  const handleSubmit = async (e) => {
    e.preventDefault();
    setError('');
    setLoading(true);
    if (!formData.title.trim()) {
      setError('Title is required'); setLoading(false); return;
    }
    if (!formData.description.trim()) {
      setError('Description is required'); setLoading(false); return;
    }
    if (!formData.base_price || parseFloat(formData.base_price) <= 0) {
      setError('Please enter a valid price'); setLoading(false); return;
    }
    if (!formData.delivery_time_days || parseInt(formData.delivery_time_days) <= 0) {
      setError('Please enter a valid delivery time'); setLoading(false); return;
    }
    try {
      const serviceData = {
        ...formData,
        base_price: parseFloat(formData.base_price),
        delivery_time_days: parseInt(formData.delivery_time_days),
        revisions_included: parseInt(formData.revisions_included),
        tags: formData.tags.split(',').map(tag => tag.trim()).filter(tag => tag),
        images: images
      };
      const response = await axios.post(`${API}/services`, serviceData);
      navigate(`/service/${response.data.id}`);
    } catch (error) {
      setError(error.response?.data?.detail || 'Failed to create service');
    } finally {
      setLoading(false);
    }
  };
  \<close>
  The handler is cut at its \<open>await\<close>.  The first part validates and, when every
  check passes, builds the request; it returns the state and the request, if one is sent.
  The second part runs when the request settles; it returns the state and the route the
  handler navigates to, if any.
\<close>

definition build_serviceData :: "formData \<Rightarrow> image list \<Rightarrow> serviceData" where
  "build_serviceData fd imgs =
     \<lparr>serviceData.title = formData.title fd,
      serviceData.description = formData.description fd,
      serviceData.category = formData.category fd,
      serviceData.tags = filter truthy (map trim (split_on CHR '','' (formData.tags fd))),
      serviceData.base_price = parseFloat (formData.base_price fd),
      serviceData.delivery_time_days = parseInt (formData.delivery_time_days fd),
      serviceData.revisions_included = parseInt (formData.revisions_included fd),
      serviceData.images = imgs\<rparr>"

definition handleSubmit_validate :: "createService \<Rightarrow> createService \<times> serviceData option" where
  "handleSubmit_validate st =
     (let fd = formData st; st1 = st\<lparr>error := [], loading := True\<rparr>
      in if \<not> truthy (trim (formData.title fd))
         then (st1\<lparr>error := ''Title is required'', loading := False\<rparr>, None)
         else if \<not> truthy (trim (formData.description fd))
         then (st1\<lparr>error := ''Description is required'', loading := False\<rparr>, None)
         else if \<not> truthy (formData.base_price fd)
                 \<or> le_zero (parseFloat (formData.base_price fd))
         then (st1\<lparr>error := ''Please enter a valid price'', loading := False\<rparr>, None)
         else if \<not> truthy (formData.delivery_time_days fd)
                 \<or> le_zero (parseInt (formData.delivery_time_days fd))
         then (st1\<lparr>error := ''Please enter a valid delivery time'', loading := False\<rparr>, None)
         else (st1, Some (build_serviceData fd (images st))))"

text \<open>
  How the request settles: with the created service's id, or with a failure, which
  carries \<open>error.response?.data?.detail\<close> when the backend sent one (a text; it is
  \<open>undefined\<close> when there is no response at all, as on a network failure).
\<close>

datatype response = Created string | Failed "string option"

definition handleSubmit_settle :: "response \<Rightarrow> createService \<Rightarrow> createService \<times> string option" where
  "handleSubmit_settle r st =
     (case r of
        Created new_id \<Rightarrow> (st\<lparr>loading := False\<rparr>, Some (''/service/'' @ new_id))
      | Failed detail \<Rightarrow>
          (st\<lparr>error := (case detail of
                           None \<Rightarrow> ''Failed to create service''
                         | Some d \<Rightarrow> if truthy d then d else ''Failed to create service''),
              loading := False\<rparr>,
           None))"

text \<open>
  The whole handler, against a backend that answers each request: the final state, the
  request sent (if any) and the route navigated to (if any).
\<close>

definition handleSubmit ::
    "(serviceData \<Rightarrow> response) \<Rightarrow> createService \<Rightarrow> createService \<times> serviceData option \<times> string option" where
  "handleSubmit backend st =
     (case handleSubmit_validate st of
        (st1, None) \<Rightarrow> (st1, None, None)
      | (st1, Some sd) \<Rightarrow>
          (case handleSubmit_settle (backend sd) st1 of
             (st2, route) \<Rightarrow> (st2, Some sd, route)))"

subsection \<open>The validation contract of the specification\<close>

text \<open>
  The specification asks for every check to be evaluated, so that all errors are
  reported together, keyed by field.  This definition follows those words (with the
  checks and the messages of the code); it is compared with the handler below.
\<close>

definition field_errors :: "formData \<Rightarrow> (string \<times> string) list" where
  "field_errors fd =
     (if \<not> truthy (trim (formData.title fd)) then [(''title'', ''Title is required'')] else [])
     @ (if \<not> truthy (trim (formData.description fd))
        then [(''description'', ''Description is required'')] else [])
     @ (if \<not> truthy (formData.base_price fd) \<or> le_zero (parseFloat (formData.base_price fd))
        then [(''base_price'', ''Please enter a valid price'')] else [])
     @ (if \<not> truthy (formData.delivery_time_days fd)
           \<or> le_zero (parseInt (formData.delivery_time_days fd))
        then [(''delivery_time_days'', ''Please enter a valid delivery time'')] else [])"

section \<open>Properties of the route guard\<close>

text \<open>
  Claim C2.  The guard follows the decision table: while \<open>loading\<close> is true it renders
  the pending indicator whatever the session holds; once loading is false, an unset
  identity is redirected to the login view, a set identity whose role differs from the
  specific role the route names is redirected to the dashboard, and in every other case
  the guarded view is rendered (and then an identity is set).  The last conjunct says the
  same against the specification's table: every call of the guard renders the decision of
  the table for the requirement its prop declares.
\<close>

theorem ProtectedRoute_decision_table:
  "ProtectedRoute req usr True = Spinner
   \<and> ProtectedRoute req None False = Navigate ''/login''
   \<and> (r \<noteq> [] \<and> user_type u \<noteq> r
        \<longrightarrow> ProtectedRoute (Some r) (Some u) False = Navigate ''/dashboard'')
   \<and> ProtectedRoute None (Some u) False = Children
   \<and> ProtectedRoute (Some (user_type u)) (Some u) False = Children
   \<and> (ProtectedRoute req usr pending = Children \<longrightarrow> usr \<noteq> None \<and> \<not> pending)
   \<and> ProtectedRoute req usr pending
       = render_decision (RouteGuard_spec pending usr (requirement_of req))"
  by (cases req; cases usr)
     (simp_all add: ProtectedRoute_def RouteGuard_spec_def truthy_def)

theorem ProtectedRoute_decision_table_witness:
  "ProtectedRoute (Some ''creator'') (Some \<lparr>id' = ''u1'', user_type = ''buyer''\<rparr>) False
     = Navigate ''/dashboard''
   \<and> ProtectedRoute (Some ''creator'') (Some \<lparr>id' = ''u2'', user_type = ''creator''\<rparr>) False
     = Children
   \<and> ProtectedRoute (Some ''creator'') None False = Navigate ''/login''
   \<and> ProtectedRoute (Some ''creator'') None True = Spinner"
  using ProtectedRoute_decision_table
          [of "Some ''creator''" None "''creator''" "\<lparr>id' = ''u1'', user_type = ''buyer''\<rparr>" False]
        ProtectedRoute_decision_table
          [of "Some ''creator''" "Some \<lparr>id' = ''u2'', user_type = ''creator''\<rparr>" "''creator''"
              "\<lparr>id' = ''u2'', user_type = ''creator''\<rparr>" False]
  by simp

text \<open>
  Claim C10.  Whatever the \<open>requiredUserType\<close> prop is, the default \<open>null\<close>
  included, the guard sends a session with no identity to the login view as soon as
  loading is false; and with no identity it never renders the guarded view, loading or
  not.
\<close>

theorem ProtectedRoute_requires_identity:
  "ProtectedRoute req None False = Navigate ''/login''
   \<and> ProtectedRoute req None pending \<noteq> Children"
  by (simp add: ProtectedRoute_def)

theorem ProtectedRoute_requires_identity_witness:
  "ProtectedRoute None None False = Navigate ''/login''
   \<and> ProtectedRoute (Some ''creator'') None False = Navigate ''/login''
   \<and> ProtectedRoute (Some ''creator'') None True \<noteq> Children"
  using ProtectedRoute_requires_identity [of None False]
        ProtectedRoute_requires_identity [of "Some ''creator''" True]
  by simp

section \<open>Properties of the order panel\<close>

text \<open>
  Claim C1, as the specification states it, fails: a creator looking at a listing of
  their own is shown the owner's panel, not the message that creators cannot order.
\<close>

theorem creator_owner_counterexample:
  "user_type \<lparr>id' = ''u7'', user_type = ''creator''\<rparr> = ''creator''
   \<and> ServiceDetail_sidebar (Some \<lparr>id' = ''u7'', user_type = ''creator''\<rparr>)
        \<lparr>creator_id = ''u7''\<rparr> = ThisIsYourService
   \<and> ServiceDetail_sidebar (Some \<lparr>id' = ''u7'', user_type = ''creator''\<rparr>)
        \<lparr>creator_id = ''u7''\<rparr> \<noteq> OnlyBuyersCanOrder"
  by (simp add: ServiceDetail_sidebar_def)

text \<open>
  Claim C1, amended.  A signed-in creator is never shown the order form.  On a listing
  owned by someone else the creator is told that only buyers can order; on a listing of
  their own the creator is shown the owner's panel (ownership is tested before the
  role).
\<close>

theorem creator_never_sees_order_form:
  assumes "user_type u = ''creator''"
  shows "ServiceDetail_sidebar (Some u) svc \<noteq> OrderForm
         \<and> ServiceDetail_sidebar (Some u) svc
             = (if id' u = creator_id svc then ThisIsYourService else OnlyBuyersCanOrder)"
  using assms by (simp add: ServiceDetail_sidebar_def)

theorem creator_never_sees_order_form_witness:
  "ServiceDetail_sidebar (Some \<lparr>id' = ''u7'', user_type = ''creator''\<rparr>)
        \<lparr>creator_id = ''u3''\<rparr> = OnlyBuyersCanOrder
   \<and> ServiceDetail_sidebar (Some \<lparr>id' = ''u7'', user_type = ''creator''\<rparr>)
        \<lparr>creator_id = ''u3''\<rparr> \<noteq> OrderForm"
  using creator_never_sees_order_form
          [of "\<lparr>id' = ''u7'', user_type = ''creator''\<rparr>"
              "\<lparr>creator_id = ''u3''\<rparr>"]
  by simp

section \<open>Properties of the catalog search\<close>

lemma Marketplace_step_services:
  "Marketplace_step e m = Some m' \<Longrightarrow>
   services m' = (case e of Resolved k d \<Rightarrow> d | _ \<Rightarrow> services m)"
  by (cases e)
     (auto simp: fetchServices_issue_def fetchServices_resolved_def
        fetchServices_rejected_def split: if_splits)

text \<open>
  Claim C3, as the specification states it, fails.  The user types \<open>a\<close>, then
  \<open>ab\<close>; the request for \<open>ab\<close> (request 2, after the mount's request 0 and the
  request 1 for \<open>a\<close>) resolves first and the request for \<open>a\<close> resolves after it.
  The listings on display are then those sent for \<open>a\<close>, while the search field and the
  newest request say \<open>ab\<close>.
\<close>

theorem stale_search_counterexample:
  "Marketplace_run
     [Mount, Resolved 0 [''Logo A'', ''Logo AB'', ''Video''],
      FilterChange ''search'' ''a'', FilterChange ''search'' ''ab'',
      Resolved 2 [''Logo AB''], Resolved 1 [''Logo A'', ''Logo AB'']]
     Marketplace_initial
   = Some \<lparr>services = [''Logo A'', ''Logo AB''], loading = False,
           filters = \<lparr>search = ''ab'', category = [], minPrice = [], maxPrice = []\<rparr>,
           requests = [[], [(''search'', ''a'')], [(''search'', ''ab'')]],
           in_flight = []\<rparr>"
  by (simp add: Marketplace_initial_def fetchServices_issue_def fetchServices_resolved_def
        handleFilterChange_def search_params_def truthy_def)

text \<open>
  Claim C3, amended.  Every response is applied to the listings on display when it
  arrives, whichever request it answers: after any sequence of events the listings are
  the data of the response that arrived last (and the previous listings when none has
  arrived).  So the newer request's result stays on display only if it resolves after
  the older one's.
\<close>

theorem last_response_is_displayed:
  "Marketplace_run es m = Some m' \<Longrightarrow>
   services m' = (case last_resolved es of None \<Rightarrow> services m | Some d \<Rightarrow> d)"
proof (induction es arbitrary: m)
  case Nil
  then show ?case by simp
next
  case (Cons e es)
  from Cons.prems obtain m1 where
    step: "Marketplace_step e m = Some m1" and run: "Marketplace_run es m1 = Some m'"
    by (auto split: option.splits)
  from Cons.IH [OF run] Marketplace_step_services [OF step]
  show ?case
    by (cases e) (simp_all split: option.splits)
qed

theorem last_response_is_displayed_witness:
  "Marketplace_run
     [Mount, FilterChange ''search'' ''a'', FilterChange ''search'' ''ab'',
      Resolved 1 [''Logo A'', ''Logo AB''], Resolved 2 [''Logo AB'']]
     Marketplace_initial
   = Some \<lparr>services = [''Logo AB''], loading = False,
           filters = \<lparr>search = ''ab'', category = [], minPrice = [], maxPrice = []\<rparr>,
           requests = [[], [(''search'', ''a'')], [(''search'', ''ab'')]],
           in_flight = [0]\<rparr>
   \<and> services \<lparr>services = [''Logo AB''], loading = False,
           filters = \<lparr>search = ''ab'', category = [], minPrice = [], maxPrice = []\<rparr>,
           requests = [[], [(''search'', ''a'')], [(''search'', ''ab'')]],
           in_flight = [0::nat]\<rparr> = [''Logo AB'']"
proof -
  have run: "Marketplace_run
     [Mount, FilterChange ''search'' ''a'', FilterChange ''search'' ''ab'',
      Resolved 1 [''Logo A'', ''Logo AB''], Resolved 2 [''Logo AB'']]
     Marketplace_initial
   = Some \<lparr>services = [''Logo AB''], loading = False,
           filters = \<lparr>search = ''ab'', category = [], minPrice = [], maxPrice = []\<rparr>,
           requests = [[], [(''search'', ''a'')], [(''search'', ''ab'')]],
           in_flight = [0]\<rparr>"
    by (simp add: Marketplace_initial_def fetchServices_issue_def fetchServices_resolved_def
          handleFilterChange_def search_params_def truthy_def)
  from last_response_is_displayed [OF run] run show ?thesis
    by simp
qed

section \<open>Properties of the listing draft\<close>

lemmas js_eval = truthy_def is_whitespace_def trim_def is_digit_def is_hex_digit_def
  digit_value_def digits_value_def strip_sign_def signed_def parseInt_def exponent_part_def
  scale10_def parseFloat_def

subsection \<open>Validation\<close>

text \<open>
  Claim C4, as the specification states it, fails.  A draft with an empty title and an
  empty description has two field errors, but the handler stops at the first check that
  fails: the state holds one message, \<open>Title is required\<close>, and nothing about the
  description.
\<close>

theorem several_invalid_fields_counterexample:
  "field_errors
     \<lparr>formData.title = [], formData.description = [],
      formData.category = ''graphic-design'', formData.tags = [],
      formData.base_price = ''25.00'', formData.delivery_time_days = ''3'',
      formData.revisions_included = ''1''\<rparr>
   = [(''title'', ''Title is required''), (''description'', ''Description is required'')]
   \<and> handleSubmit_validate
     \<lparr>formData =
        \<lparr>formData.title = [], formData.description = [],
         formData.category = ''graphic-design'', formData.tags = [],
         formData.base_price = ''25.00'', formData.delivery_time_days = ''3'',
         formData.revisions_included = ''1''\<rparr>,
      images = [], error = [], loading = False\<rparr>
   = (\<lparr>formData =
        \<lparr>formData.title = [], formData.description = [],
         formData.category = ''graphic-design'', formData.tags = [],
         formData.base_price = ''25.00'', formData.delivery_time_days = ''3'',
         formData.revisions_included = ''1''\<rparr>,
      images = [], error = ''Title is required'', loading = False\<rparr>, None)"
  by (simp add: handleSubmit_validate_def field_errors_def js_eval)

text \<open>
  Claim C4, amended.  Validation runs the checks in the order title, description, base
  price, delivery time and stops at the first one that fails: the single error message
  of the state is the message of the first field error, no request is built, and the
  errors of the later fields are not reported.  When no check fails the error message is
  empty and the request is built from the draft.
\<close>

theorem validation_stops_at_first_error:
  "handleSubmit_validate st =
     (case field_errors (formData st) of
        [] \<Rightarrow> (st\<lparr>error := [], loading := True\<rparr>,
               Some (build_serviceData (formData st) (images st)))
      | (field, message) # rest \<Rightarrow> (st\<lparr>error := message, loading := False\<rparr>, None))"
  by (simp add: handleSubmit_validate_def field_errors_def Let_def)

theorem validation_stops_at_first_error_witness:
  "handleSubmit_validate
     \<lparr>formData =
        \<lparr>formData.title = ''Logo Design'', formData.description = '' '',
         formData.category = ''graphic-design'', formData.tags = [],
         formData.base_price = ''0'', formData.delivery_time_days = [],
         formData.revisions_included = ''1''\<rparr>,
      images = [], error = [], loading = False\<rparr>
   = (\<lparr>formData =
        \<lparr>formData.title = ''Logo Design'', formData.description = '' '',
         formData.category = ''graphic-design'', formData.tags = [],
         formData.base_price = ''0'', formData.delivery_time_days = [],
         formData.revisions_included = ''1''\<rparr>,
      images = [], error = ''Description is required'', loading = False\<rparr>, None)"
proof -
  have "field_errors
     \<lparr>formData.title = ''Logo Design'', formData.description = '' '',
      formData.category = ''graphic-design'', formData.tags = [],
      formData.base_price = ''0'', formData.delivery_time_days = [],
      formData.revisions_included = ''1''\<rparr>
   = [(''description'', ''Description is required''),
      (''base_price'', ''Please enter a valid price''),
      (''delivery_time_days'', ''Please enter a valid delivery time'')]"
    by (simp add: field_errors_def js_eval)
  then show ?thesis
    using validation_stops_at_first_error
      [of "\<lparr>formData =
        \<lparr>formData.title = ''Logo Design'', formData.description = '' '',
         formData.category = ''graphic-design'', formData.tags = [],
         formData.base_price = ''0'', formData.delivery_time_days = [],
         formData.revisions_included = ''1''\<rparr>,
      images = [], error = [], loading = False\<rparr>"]
    by simp
qed

text \<open>
  Claim C5 says that a delivery time that does not parse as an integer of at least 1
  fails validation.  Both numeric fields are number inputs: text that is not a number
  reaches the state as the empty string, which the handler rejects.  A number written
  without a leading digit does reach the state.  The delivery time \<open>.3e2\<close> is the
  number 30, within the bounds 1 and 30 of the input; \<open>parseInt\<close> finds no digit at
  its start and returns \<open>NaN\<close>, and the handler's test \<open><= 0\<close> is false for
  \<open>NaN\<close>.  So the draft passes every check, no error is set, and the request carries
  \<open>NaN\<close> as its delivery time.
\<close>

theorem unparsed_delivery_time_is_submitted:
  "parseFloat ''.3e2'' = Num 30
   \<and> parseInt ''.3e2'' = NaN
   \<and> handleSubmit_validate
     \<lparr>formData =
        \<lparr>formData.title = ''Logo Design'', formData.description = ''I design logos'',
         formData.category = ''graphic-design'', formData.tags = [],
         formData.base_price = ''25.00'', formData.delivery_time_days = ''.3e2'',
         formData.revisions_included = ''1''\<rparr>,
      images = [], error = [], loading = False\<rparr>
   = (\<lparr>formData =
        \<lparr>formData.title = ''Logo Design'', formData.description = ''I design logos'',
         formData.category = ''graphic-design'', formData.tags = [],
         formData.base_price = ''25.00'', formData.delivery_time_days = ''.3e2'',
         formData.revisions_included = ''1''\<rparr>,
      images = [], error = [], loading = True\<rparr>,
      Some \<lparr>serviceData.title = ''Logo Design'', serviceData.description = ''I design logos'',
            serviceData.category = ''graphic-design'', serviceData.tags = [],
            serviceData.base_price = Num 25, serviceData.delivery_time_days = NaN,
            serviceData.revisions_included = Num 1, serviceData.images = []\<rparr>)"
  by (simp add: handleSubmit_validate_def build_serviceData_def js_eval)

theorem unparsed_delivery_time_is_submitted_witness:
  "fst (snd (handleSubmit (\<lambda>sd. Failed None)
     \<lparr>formData =
        \<lparr>formData.title = ''Logo Design'', formData.description = ''I design logos'',
         formData.category = ''graphic-design'', formData.tags = [],
         formData.base_price = ''25.00'', formData.delivery_time_days = ''.3e2'',
         formData.revisions_included = ''1''\<rparr>,
      images = [], error = [], loading = False\<rparr>))
   = Some \<lparr>serviceData.title = ''Logo Design'', serviceData.description = ''I design logos'',
            serviceData.category = ''graphic-design'', serviceData.tags = [],
            serviceData.base_price = Num 25, serviceData.delivery_time_days = NaN,
            serviceData.revisions_included = Num 1, serviceData.images = []\<rparr>"
  using unparsed_delivery_time_is_submitted
  by (simp add: handleSubmit_def handleSubmit_settle_def)

text \<open>
  Claim C8.  The draft with title \<open>Logo Design\<close>, description \<open>I design logos\<close>,
  base price \<open>25.00\<close>, delivery time \<open>3\<close>, revisions \<open>1\<close> and tags
  \<open>logo, branding\<close> passes validation, whatever its category and images, and the
  request built from it carries the price 25, the delivery time 3, the revisions 1 and
  the tags \<open>logo\<close> and \<open>branding\<close>.
\<close>

theorem logo_design_round_trip:
  "handleSubmit_validate
     \<lparr>formData =
        \<lparr>formData.title = ''Logo Design'', formData.description = ''I design logos'',
         formData.category = cat, formData.tags = ''logo, branding'',
         formData.base_price = ''25.00'', formData.delivery_time_days = ''3'',
         formData.revisions_included = ''1''\<rparr>,
      images = imgs, error = err, loading = ld\<rparr>
   = (\<lparr>formData =
        \<lparr>formData.title = ''Logo Design'', formData.description = ''I design logos'',
         formData.category = cat, formData.tags = ''logo, branding'',
         formData.base_price = ''25.00'', formData.delivery_time_days = ''3'',
         formData.revisions_included = ''1''\<rparr>,
      images = imgs, error = [], loading = True\<rparr>,
      Some \<lparr>serviceData.title = ''Logo Design'', serviceData.description = ''I design logos'',
            serviceData.category = cat, serviceData.tags = [''logo'', ''branding''],
            serviceData.base_price = Num 25, serviceData.delivery_time_days = Num 3,
            serviceData.revisions_included = Num 1, serviceData.images = imgs\<rparr>)"
  by (simp add: handleSubmit_validate_def build_serviceData_def js_eval)

theorem logo_design_round_trip_witness:
  "handleSubmit_validate
     \<lparr>formData =
        \<lparr>formData.title = ''Logo Design'', formData.description = ''I design logos'',
         formData.category = ''graphic-design'', formData.tags = ''logo, branding'',
         formData.base_price = ''25.00'', formData.delivery_time_days = ''3'',
         formData.revisions_included = ''1''\<rparr>,
      images = [], error = [], loading = False\<rparr>
   = (\<lparr>formData =
        \<lparr>formData.title = ''Logo Design'', formData.description = ''I design logos'',
         formData.category = ''graphic-design'', formData.tags = ''logo, branding'',
         formData.base_price = ''25.00'', formData.delivery_time_days = ''3'',
         formData.revisions_included = ''1''\<rparr>,
      images = [], error = [], loading = True\<rparr>,
      Some \<lparr>serviceData.title = ''Logo Design'', serviceData.description = ''I design logos'',
            serviceData.category = ''graphic-design'', serviceData.tags = [''logo'', ''branding''],
            serviceData.base_price = Num 25, serviceData.delivery_time_days = Num 3,
            serviceData.revisions_included = Num 1, serviceData.images = []\<rparr>)"
  using logo_design_round_trip [of "''graphic-design''" "[]" "[]" False]
  by simp

subsection \<open>A submission that fails\<close>

lemma handleSubmit_validate_frame:
  "formData (fst (handleSubmit_validate st)) = formData st
   \<and> images (fst (handleSubmit_validate st)) = images st"
  by (simp add: handleSubmit_validate_def Let_def)

lemma handleSubmit_validate_sent:
  "handleSubmit_validate st = (st1, Some sd) \<Longrightarrow> st1 = st\<lparr>error := [], loading := True\<rparr>"
  by (auto simp: handleSubmit_validate_def Let_def split: if_splits)

text \<open>
  Claim C9.  The handler never changes the form fields or the image list.  When the
  request it sends fails, the error message of the state is the detail the backend sent,
  when there is one and it is not empty, and \<open>Failed to create service\<close> otherwise;
  loading ends and there is no navigation.
\<close>

theorem failed_submission_keeps_draft:
  "formData (fst (handleSubmit backend st)) = formData st
   \<and> images (fst (handleSubmit backend st)) = images st
   \<and> (handleSubmit_validate st = (st1, Some sd) \<and> backend sd = Failed detail \<longrightarrow>
        handleSubmit backend st
        = (st\<lparr>error := (case detail of
                           None \<Rightarrow> ''Failed to create service''
                         | Some d \<Rightarrow> if d = [] then ''Failed to create service'' else d),
              loading := False\<rparr>,
           Some sd, None))"
proof -
  have frame: "formData (fst (handleSubmit backend st)) = formData st
               \<and> images (fst (handleSubmit backend st)) = images st"
    using handleSubmit_validate_frame [of st]
    by (cases "handleSubmit_validate st")
       (auto simp: handleSubmit_def handleSubmit_settle_def
          split: option.splits prod.splits response.splits)
  have failed: "handleSubmit backend st
        = (st\<lparr>error := (case detail of
                           None \<Rightarrow> ''Failed to create service''
                         | Some d \<Rightarrow> if d = [] then ''Failed to create service'' else d),
              loading := False\<rparr>,
           Some sd, None)"
    if v: "handleSubmit_validate st = (st1, Some sd)" and b: "backend sd = Failed detail"
    using handleSubmit_validate_sent [OF v] v b
    by (cases detail) (simp_all add: handleSubmit_def handleSubmit_settle_def truthy_def)
  from frame failed show ?thesis by blast
qed

theorem failed_submission_keeps_draft_witness:
  "handleSubmit (\<lambda>sd. Failed (Some ''Price is below the minimum''))
     \<lparr>formData =
        \<lparr>formData.title = ''Logo Design'', formData.description = ''I design logos'',
         formData.category = ''graphic-design'', formData.tags = [],
         formData.base_price = ''2'', formData.delivery_time_days = ''3'',
         formData.revisions_included = ''1''\<rparr>,
      images = [Some ''QUJD''], error = [], loading = False\<rparr>
   = (\<lparr>formData =
        \<lparr>formData.title = ''Logo Design'', formData.description = ''I design logos'',
         formData.category = ''graphic-design'', formData.tags = [],
         formData.base_price = ''2'', formData.delivery_time_days = ''3'',
         formData.revisions_included = ''1''\<rparr>,
      images = [Some ''QUJD''], error = ''Price is below the minimum'', loading = False\<rparr>,
      Some \<lparr>serviceData.title = ''Logo Design'', serviceData.description = ''I design logos'',
            serviceData.category = ''graphic-design'', serviceData.tags = [],
            serviceData.base_price = Num 2, serviceData.delivery_time_days = Num 3,
            serviceData.revisions_included = Num 1, serviceData.images = [Some ''QUJD'']\<rparr>,
      None)"
proof -
  have sent: "handleSubmit_validate
     \<lparr>formData =
        \<lparr>formData.title = ''Logo Design'', formData.description = ''I design logos'',
         formData.category = ''graphic-design'', formData.tags = [],
         formData.base_price = ''2'', formData.delivery_time_days = ''3'',
         formData.revisions_included = ''1''\<rparr>,
      images = [Some ''QUJD''], error = [], loading = False\<rparr>
   = (\<lparr>formData =
        \<lparr>formData.title = ''Logo Design'', formData.description = ''I design logos'',
         formData.category = ''graphic-design'', formData.tags = [],
         formData.base_price = ''2'', formData.delivery_time_days = ''3'',
         formData.revisions_included = ''1''\<rparr>,
      images = [Some ''QUJD''], error = [], loading = True\<rparr>,
      Some \<lparr>serviceData.title = ''Logo Design'', serviceData.description = ''I design logos'',
            serviceData.category = ''graphic-design'', serviceData.tags = [],
            serviceData.base_price = Num 2, serviceData.delivery_time_days = Num 3,
            serviceData.revisions_included = Num 1, serviceData.images = [Some ''QUJD'']\<rparr>)"
    by (simp add: handleSubmit_validate_def build_serviceData_def js_eval)
  show ?thesis
    using failed_submission_keeps_draft
      [of "\<lambda>sd. Failed (Some ''Price is below the minimum'')" _ _ _
          "Some ''Price is below the minimum''"]
      sent
    by simp
qed

subsection \<open>Attaching images\<close>

lemma upload_file_pair:
  "upload_file f (st, rs)
   = (if size' f > 5 * 1024 * 1024
      then (st\<lparr>error := ''Image files must be less than 5MB''\<rparr>, rs)
      else (st, rs @ [f]))"
  by (simp add: upload_file_def)

lemma upload_files_fold:
  "foldl (\<lambda>acc f. upload_file f acc) (st, rs) files
   = (if list_ex (\<lambda>f. size' f > 5 * 1024 * 1024) files
      then st\<lparr>error := ''Image files must be less than 5MB''\<rparr> else st,
      rs @ filter (\<lambda>f. size' f \<le> 5 * 1024 * 1024) files)"
proof (induction files arbitrary: st rs)
  case Nil
  then show ?case by simp
next
  case (Cons f files)
  show ?case
  proof (cases "size' f > 5 * 1024 * 1024")
    case True
    then show ?thesis
      by (simp add: upload_file_pair Cons.IH)
  next
    case False
    then show ?thesis
      by (simp add: upload_file_pair Cons.IH)
  qed
qed

lemma readers_loaded_images:
  "images (readers_loaded fired st) = images st @ map (\<lambda>f. base64_of (dataURL f)) fired"
  unfolding readers_loaded_def
  by (induction fired arbitrary: st) (simp_all add: reader_onload_def)

text \<open>
  Claim C7.  From a batch the handler starts a reader for exactly the files of at most
  5 MiB, in the order of the selection, and leaves the image list as it is.  A file of
  exactly 5 MiB gets a reader, and when that reader fires its text is appended to the
  image list.  A file of 5 MiB + 1 byte sets the size error and gets no reader, so no
  firing of the readers that were started appends it; the other files of the batch are
  not affected.
\<close>

theorem image_size_limit_boundary:
  "snd (handleImageUpload files st) = filter (\<lambda>g. size' g \<le> 5 * 1024 * 1024) files
   \<and> images (fst (handleImageUpload files st)) = images st
   \<and> (f \<in> set files \<and> size' f = 5 * 1024 * 1024 \<longrightarrow>
        f \<in> set (snd (handleImageUpload files st))
        \<and> images (reader_onload (dataURL f) st') = images st' @ [base64_of (dataURL f)])
   \<and> (f \<in> set files \<and> size' f = 5 * 1024 * 1024 + 1 \<longrightarrow>
        error (fst (handleImageUpload files st)) = ''Image files must be less than 5MB''
        \<and> f \<notin> set (snd (handleImageUpload files st))
        \<and> (set fired \<subseteq> set (snd (handleImageUpload files st)) \<longrightarrow>
             f \<notin> set fired
             \<and> images (readers_loaded fired st')
                 = images st' @ map (\<lambda>g. base64_of (dataURL g)) fired))"
proof -
  have started:
    "snd (handleImageUpload files st) = filter (\<lambda>g. size' g \<le> 5 * 1024 * 1024) files"
    by (simp add: handleImageUpload_def upload_files_fold)
  have state: "fst (handleImageUpload files st)
      = (if list_ex (\<lambda>g. size' g > 5 * 1024 * 1024) files
         then st\<lparr>error := ''Image files must be less than 5MB''\<rparr> else st)"
    by (simp add: handleImageUpload_def upload_files_fold)
  have unchanged: "images (fst (handleImageUpload files st)) = images st"
    by (simp add: state)
  have rejected: "error (fst (handleImageUpload files st)) = ''Image files must be less than 5MB''"
    if "f \<in> set files" "size' f = 5 * 1024 * 1024 + 1"
  proof -
    from that have "list_ex (\<lambda>g. size' g > 5 * 1024 * 1024) files"
      by (auto simp: list_ex_iff intro!: bexI [of _ f])
    then show ?thesis by (simp add: state)
  qed
  show ?thesis
    using started unchanged rejected
    by (auto simp: reader_onload_def readers_loaded_images)
qed

theorem image_size_limit_boundary_witness:
  "snd (handleImageUpload
          [\<lparr>size' = 5242880, dataURL = ''data:image/png;base64,QUJD''\<rparr>,
           \<lparr>size' = 5242881, dataURL = ''data:image/png;base64,WFla''\<rparr>,
           \<lparr>size' = 1024, dataURL = ''data:image/jpeg;base64,MTIz''\<rparr>]
          CreateService_initial)
   = [\<lparr>size' = 5242880, dataURL = ''data:image/png;base64,QUJD''\<rparr>,
      \<lparr>size' = 1024, dataURL = ''data:image/jpeg;base64,MTIz''\<rparr>]
   \<and> error (fst (handleImageUpload
          [\<lparr>size' = 5242880, dataURL = ''data:image/png;base64,QUJD''\<rparr>,
           \<lparr>size' = 5242881, dataURL = ''data:image/png;base64,WFla''\<rparr>,
           \<lparr>size' = 1024, dataURL = ''data:image/jpeg;base64,MTIz''\<rparr>]
          CreateService_initial))
     = ''Image files must be less than 5MB''
   \<and> images (readers_loaded
          [\<lparr>size' = 5242880, dataURL = ''data:image/png;base64,QUJD''\<rparr>,
           \<lparr>size' = 1024, dataURL = ''data:image/jpeg;base64,MTIz''\<rparr>]
          (fst (handleImageUpload
          [\<lparr>size' = 5242880, dataURL = ''data:image/png;base64,QUJD''\<rparr>,
           \<lparr>size' = 5242881, dataURL = ''data:image/png;base64,WFla''\<rparr>,
           \<lparr>size' = 1024, dataURL = ''data:image/jpeg;base64,MTIz''\<rparr>]
          CreateService_initial)))
     = [Some ''QUJD'', Some ''MTIz'']"
  using image_size_limit_boundary
    [of "[\<lparr>size' = 5242880, dataURL = ''data:image/png;base64,QUJD''\<rparr>,
          \<lparr>size' = 5242881, dataURL = ''data:image/png;base64,WFla''\<rparr>,
          \<lparr>size' = 1024, dataURL = ''data:image/jpeg;base64,MTIz''\<rparr>]"
        CreateService_initial
        "\<lparr>size' = 5242881, dataURL = ''data:image/png;base64,WFla''\<rparr>"
        "fst (handleImageUpload
          [\<lparr>size' = 5242880, dataURL = ''data:image/png;base64,QUJD''\<rparr>,
           \<lparr>size' = 5242881, dataURL = ''data:image/png;base64,WFla''\<rparr>,
           \<lparr>size' = 1024, dataURL = ''data:image/jpeg;base64,MTIz''\<rparr>]
          CreateService_initial)"
        "[\<lparr>size' = 5242880, dataURL = ''data:image/png;base64,QUJD''\<rparr>,
          \<lparr>size' = 1024, dataURL = ''data:image/jpeg;base64,MTIz''\<rparr>]"]
  by (simp add: base64_of_def nth_opt_def CreateService_initial_def)

text \<open>
  Claim C6, as the specification states it, fails.  Two files are selected, first the
  one whose text is \<open>QUFB\<close>, then the one whose text is \<open>QkJC\<close>; both get a
  reader.  When the second reader fires before the first, the image list holds
  \<open>QkJC\<close> before \<open>QUFB\<close>.
\<close>

theorem completion_order_counterexample:
  "snd (handleImageUpload
          [\<lparr>size' = 2048, dataURL = ''data:image/png;base64,QUFB''\<rparr>,
           \<lparr>size' = 1024, dataURL = ''data:image/png;base64,QkJC''\<rparr>]
          CreateService_initial)
   = [\<lparr>size' = 2048, dataURL = ''data:image/png;base64,QUFB''\<rparr>,
      \<lparr>size' = 1024, dataURL = ''data:image/png;base64,QkJC''\<rparr>]
   \<and> images (readers_loaded
          [\<lparr>size' = 1024, dataURL = ''data:image/png;base64,QkJC''\<rparr>,
           \<lparr>size' = 2048, dataURL = ''data:image/png;base64,QUFB''\<rparr>]
          (fst (handleImageUpload
             [\<lparr>size' = 2048, dataURL = ''data:image/png;base64,QUFB''\<rparr>,
              \<lparr>size' = 1024, dataURL = ''data:image/png;base64,QkJC''\<rparr>]
             CreateService_initial)))
     = [Some ''QkJC'', Some ''QUFB'']"
  by (simp add: handleImageUpload_def upload_file_def readers_loaded_def reader_onload_def
        base64_of_def nth_opt_def CreateService_initial_def)

text \<open>
  Claim C6, amended.  The text of each accepted file is appended to the image list when
  the read of that file completes, so the list grows in the order in which the reads
  complete.  It is in the order of the selection when the reads complete in that order.
\<close>

theorem images_follow_completion_order:
  "images (readers_loaded fired st) = images st @ map (\<lambda>f. base64_of (dataURL f)) fired
   \<and> images (readers_loaded (snd (handleImageUpload files st))
               (fst (handleImageUpload files st)))
     = images st
       @ map (\<lambda>f. base64_of (dataURL f)) (filter (\<lambda>f. size' f \<le> 5 * 1024 * 1024) files)"
proof -
  have "images (fst (handleImageUpload files st)) = images st"
    by (simp add: handleImageUpload_def upload_files_fold)
  moreover have "snd (handleImageUpload files st)
                 = filter (\<lambda>f. size' f \<le> 5 * 1024 * 1024) files"
    by (simp add: handleImageUpload_def upload_files_fold)
  ultimately show ?thesis
    by (simp add: readers_loaded_images)
qed

theorem images_follow_completion_order_witness:
  "images (readers_loaded
          [\<lparr>size' = 1024, dataURL = ''data:image/png;base64,QkJC''\<rparr>,
           \<lparr>size' = 2048, dataURL = ''data:image/png;base64,QUFB''\<rparr>]
          CreateService_initial)
   = [Some ''QkJC'', Some ''QUFB'']"
  using images_follow_completion_order
    [of "[\<lparr>size' = 1024, dataURL = ''data:image/png;base64,QkJC''\<rparr>,
          \<lparr>size' = 2048, dataURL = ''data:image/png;base64,QUFB''\<rparr>]"
        CreateService_initial "[]"]
  by (simp add: base64_of_def nth_opt_def CreateService_initial_def)

end
